theory Spec2Isabelle
  imports Complex_Main
begin

section \<open>The raster-to-image conversion of \<open>notebooks/gosif.ipynb\<close>\<close>

text \<open>
  The notebook cell \<open>convert_geotiff_to_png\<close> opens a GeoTIFF, reads its first band,
  builds the georeferencing metadata, masks every value above a threshold, takes the
  minimum and the maximum of what is left as the bounds of the colour scale, renders the
  masked array with a colormap whose "bad" colour has alpha 0, and writes the image and the
  metadata (as JSON) to two files.

  Pixel values are integers (the GOSIF product is stored as 16-bit integers, with values
  above 32760 as fill values); the not-a-number values of a floating-point raster are
  outside this model. Coordinates are finite doubles, which are rational numbers; the
  text encoding of a number in the JSON file is the work of the JSON libraries on both
  sides and is not modelled: a file holds a JSON value. The image is modelled at the
  resolution of the source array, one rendered cell for each source cell, laid over the
  background of the figure when it is saved; the size of the figure in inches (a
  floating-point quotient) and its rasterisation belong to the plotting library.
\<close>

subsection \<open>Data\<close>

datatype py_error = RasterioIOError | IndexError | AttributeError | ValueError

text \<open>\<open>rasterio.coords.BoundingBox\<close>, a named tuple \<open>(left, bottom, right, top)\<close>.\<close>

record bounding_box =
  left :: rat
  bottom :: rat
  right :: rat
  top' :: rat

text \<open>
  An opened dataset (\<open>src\<close>). \<open>crs\<close> is \<open>None\<close> for a dataset without a coordinate
  reference system, otherwise the string that \<open>src.crs.to_string()\<close> returns. Each band is
  a list of rows.
\<close>

record raster =
  bounds :: bounding_box
  width :: nat
  height :: nat
  crs :: "string option"
  bands :: "int list list list"

datatype json =
    JNull
  | JBool bool
  | JInt int
  | JFloat rat
  | JStr string
  | JArr "json list"
  | JObj "(string \<times> json) list"

text \<open>A rendered cell: the position on the colormap (\<open>None\<close> for the bad colour) and alpha.\<close>

datatype pixel = Pixel (level: "rat option") (alpha: rat)

record colormap =
  cmap_name :: string
  bad_alpha :: rat

datatype content = GeoTIFF raster | PNG "pixel list list" | JSONFile json

type_synonym fs = "string \<Rightarrow> content option"

subsection \<open>Library operations used by the cell\<close>

definition rasterio_open :: "fs \<Rightarrow> string \<Rightarrow> py_error + raster" where
  "rasterio_open files path =
     (case files path of Some (GeoTIFF r) \<Rightarrow> Inr r | _ \<Rightarrow> Inl RasterioIOError)"

text \<open>\<open>src.read(i)\<close>: band indices start at 1.\<close>

definition read :: "raster \<Rightarrow> nat \<Rightarrow> py_error + int list list" where
  "read src i =
     (if 1 \<le> i \<and> i \<le> length (bands src) then Inr (bands src ! (i - 1)) else Inl IndexError)"

text \<open>\<open>src.crs.to_string()\<close>: attribute access on \<open>None\<close> raises.\<close>

definition crs_to_string :: "string option \<Rightarrow> py_error + string" where
  "crs_to_string c = (case c of None \<Rightarrow> Inl AttributeError | Some s \<Rightarrow> Inr s)"

text \<open>\<open>src.bounds._asdict()\<close>.\<close>

definition asdict :: "bounding_box \<Rightarrow> (string \<times> json) list" where
  "asdict b =
     [(''left'', JFloat (left b)), (''bottom'', JFloat (bottom b)),
      (''right'', JFloat (right b)), (''top'', JFloat (top' b))]"

text \<open>
  A masked array holds, for each cell, the value and the mask flag (\<open>True\<close>: masked).
  \<open>masked_array\<close> is the two-dimensional \<open>np.ma.masked_array(data, mask)\<close>.
\<close>

type_synonym marray = "(int \<times> bool) list"

definition masked_array :: "int list list \<Rightarrow> bool list list \<Rightarrow> marray list" where
  "masked_array data mask' = map (\<lambda>(row, mrow). zip row mrow) (zip data mask')"

text \<open>
  \<open>valid_data <= threshold\<close>: the comparison is made on the underlying data and the
  result carries the mask of its operand.
\<close>

definition ma_le :: "marray list \<Rightarrow> int \<Rightarrow> (bool \<times> bool) list list" where
  "ma_le a t = map (map (\<lambda>(v, m). (v \<le> t, m))) a"

text \<open>
  \<open>a[idx]\<close> with a boolean index: the cells of \<open>a\<close>, in row-major order, at which the
  data of the index is true, as a one-dimensional masked array.
\<close>

definition ma_getitem :: "marray list \<Rightarrow> (bool \<times> bool) list list \<Rightarrow> marray" where
  "ma_getitem a idx = map fst (filter (\<lambda>(c, i). fst i) (zip (concat a) (concat idx)))"

definition unmasked :: "marray \<Rightarrow> int list" where
  "unmasked a = map fst (filter (\<lambda>(v, m). \<not> m) a)"

text \<open>
  \<open>np.nanmin\<close> and \<open>np.nanmax\<close> on a masked array of integers are the \<open>min\<close> and
  \<open>max\<close> methods of the masked array: a reduction over the cells that are not masked.
  An array without any cell raises \<open>ValueError\<close> (a reduction of a zero-size array); an
  array whose cells are all masked gives the constant \<open>np.ma.masked\<close>, here \<open>None\<close>.
\<close>

definition nanmin :: "marray \<Rightarrow> py_error + int option" where
  "nanmin a =
     (if a = [] then Inl ValueError
      else case unmasked a of [] \<Rightarrow> Inr None | x # xs \<Rightarrow> Inr (Some (fold min xs x)))"

definition nanmax :: "marray \<Rightarrow> py_error + int option" where
  "nanmax a =
     (if a = [] then Inl ValueError
      else case unmasked a of [] \<Rightarrow> Inr None | x # xs \<Rightarrow> Inr (Some (fold max xs x)))"

text \<open>
  \<open>colors.Normalize(vmin, vmax)\<close> applied to a value: 0 when the two bounds are equal,
  the linear rescaling otherwise. A bound that is \<open>np.ma.masked\<close> gives a masked result;
  the conversion never gets there (the maximum raises first).
\<close>

record normalize =
  vmin :: "int option"
  vmax :: "int option"

definition Normalize :: "int option \<Rightarrow> int option \<Rightarrow> normalize" where
  "Normalize lo hi = \<lparr>vmin = lo, vmax = hi\<rparr>"

definition norm_call :: "normalize \<Rightarrow> int \<Rightarrow> rat option" where
  "norm_call n v =
     (case (vmin n, vmax n) of
        (Some lo, Some hi) \<Rightarrow>
          Some (if lo = hi then 0 else of_int (v - lo) / of_int (hi - lo))
      | _ \<Rightarrow> None)"

text \<open>\<open>plt.cm.viridis.copy()\<close> and \<open>cmap.set_bad(alpha=...)\<close>.\<close>

definition viridis :: colormap where
  "viridis = \<lparr>cmap_name = ''viridis'', bad_alpha = 0\<rparr>"

definition set_bad :: "colormap \<Rightarrow> rat \<Rightarrow> colormap" where
  "set_bad cmap a = cmap\<lparr>bad_alpha := a\<rparr>"

text \<open>
  \<open>ax.imshow(valid_data, cmap=cmap, norm=norm_data, interpolation="nearest")\<close> on axes
  that fill the figure: a masked cell gets the bad colour of the colormap, any other cell
  the opaque colour of its normalised value.
\<close>

definition imshow_cell :: "colormap \<Rightarrow> normalize \<Rightarrow> int \<times> bool \<Rightarrow> pixel" where
  "imshow_cell cmap n c =
     (if snd c then Pixel None (bad_alpha cmap)
      else case norm_call n (fst c) of
             None \<Rightarrow> Pixel None (bad_alpha cmap)
           | Some x \<Rightarrow> Pixel (Some x) 1)"

definition imshow :: "marray list \<Rightarrow> colormap \<Rightarrow> normalize \<Rightarrow> pixel list list" where
  "imshow a cmap n = map (map (imshow_cell cmap n)) a"

text \<open>
  \<open>plt.savefig(..., transparent=...)\<close>: each cell of the image is laid over the background
  of the figure, which has alpha 0 when \<open>transparent\<close> is set and is opaque otherwise.
\<close>

definition savefig :: "pixel list list \<Rightarrow> bool \<Rightarrow> pixel list list" where
  "savefig figure_image transparent =
     map (map (\<lambda>px. Pixel (level px)
                        (alpha px + (if transparent then 0 else 1) * (1 - alpha px))))
       figure_image"

subsection \<open>The conversion\<close>

text \<open>
  The threshold is an optional argument: \<open>None\<close> stands for a call that does not pass it,
  and the default of the signature is then taken.
\<close>

definition threshold_default :: int where
  "threshold_default = 32760"

definition threshold_of :: "int option \<Rightarrow> int" where
  "threshold_of thr = (case thr of None \<Rightarrow> threshold_default | Some t \<Rightarrow> t)"

definition metadata_of :: "raster \<Rightarrow> string \<Rightarrow> json" where
  "metadata_of src crs_string =
     JObj [(''bounds'', JObj (asdict (bounds src))),
           (''width'', JInt (int (width src))),
           (''height'', JInt (int (height src))),
           (''crs'', JStr crs_string)]"

definition convert_geotiff_to_png ::
  "string \<Rightarrow> string \<Rightarrow> string \<Rightarrow> int option \<Rightarrow> fs \<Rightarrow> py_error + fs" where
  "convert_geotiff_to_png geotiff_path output_png_path output_metadata_path thr files =
     (let threshold = threshold_of thr in
      case rasterio_open files geotiff_path of Inl e \<Rightarrow> Inl e | Inr src \<Rightarrow>
     (case read src 1 of Inl e \<Rightarrow> Inl e | Inr data \<Rightarrow>
     (case crs_to_string (crs src) of Inl e \<Rightarrow> Inl e | Inr crs_string \<Rightarrow>
     (let metadata = metadata_of src crs_string;
          mask' = map (map (\<lambda>v. v > threshold)) data;
          valid_data = masked_array data mask'
      in
      case nanmin (concat valid_data) of Inl e \<Rightarrow> Inl e | Inr lo \<Rightarrow>
     (case nanmax (ma_getitem valid_data (ma_le valid_data threshold)) of
        Inl e \<Rightarrow> Inl e
      | Inr hi \<Rightarrow>
     (let norm_data = Normalize lo hi;
          cmap = set_bad viridis 0;
          image = imshow valid_data cmap norm_data
      in Inr (files(output_png_path \<mapsto> PNG (savefig image True),
                    output_metadata_path \<mapsto> JSONFile metadata))))))))"

text \<open>The example invocation at the end of the cell: three arguments, no threshold.\<close>

definition example_usage :: "fs \<Rightarrow> py_error + fs" where
  "example_usage files =
     convert_geotiff_to_png ''data/GOSIF_2020.M06.tif'' ''data/GOSIF_2020.M06.png''
       ''data/GOSIF_2020.M06_metadata.json'' None files"

section \<open>The viewer page \<open>notebooks/gosif.html\<close>\<close>

text \<open>
  The page builds a map with a base layer, inserts a label layer, and calls the
  asynchronous function \<open>loadGeoPNG\<close>, which fetches the metadata file, builds an extent
  from its bounds and inserts an image layer at position 1. The whole body of the function
  is inside one \<open>try\<close> block whose handler logs to the console.
\<close>

subsection \<open>JavaScript values\<close>

datatype js_error = TypeError | SyntaxError | NetworkError | Error string

datatype jsval =
    JSUndefined
  | JSNull
  | JSBool bool
  | JSNum rat
  | JSStr string
  | JSArr "jsval list"
  | JSObj "(string \<times> jsval) list"

text \<open>
  The value that parsing a JSON text gives. Of two members of an object with the same
  name the later one wins; \<open>get_prop\<close> below takes the first binding of the list, so the
  members are reversed here.
\<close>

primrec from_json :: "json \<Rightarrow> jsval" where
  "from_json JNull = JSNull"
| "from_json (JBool b) = JSBool b"
| "from_json (JInt i) = JSNum (of_int i)"
| "from_json (JFloat r) = JSNum r"
| "from_json (JStr s) = JSStr s"
| "from_json (JArr xs) = JSArr (map from_json xs)"
| "from_json (JObj kvs) = JSObj (rev (map (map_prod id from_json) kvs))"

text \<open>
  Property access \<open>v.k\<close>, for the property names the page uses (\<open>bounds\<close>, \<open>left\<close>,
  \<open>bottom\<close>, \<open>right\<close>, \<open>top\<close>, \<open>crs\<close>, none of which a string, a number, a boolean or an
  array has): it throws on \<open>undefined\<close> and \<open>null\<close>, and gives \<open>undefined\<close> for a
  property that is not there.
\<close>

fun get_prop :: "jsval \<Rightarrow> string \<Rightarrow> js_error + jsval" where
  "get_prop JSUndefined k = Inl TypeError"
| "get_prop JSNull k = Inl TypeError"
| "get_prop (JSObj kvs) k = Inr (case map_of kvs k of None \<Rightarrow> JSUndefined | Some v \<Rightarrow> v)"
| "get_prop v k = Inr JSUndefined"

text \<open>Truthiness, and the operator \<open>a || b\<close>.\<close>

fun js_truthy :: "jsval \<Rightarrow> bool" where
  "js_truthy JSUndefined = False"
| "js_truthy JSNull = False"
| "js_truthy (JSBool b) = b"
| "js_truthy (JSNum n) = (n \<noteq> 0)"
| "js_truthy (JSStr s) = (s \<noteq> [])"
| "js_truthy (JSArr xs) = True"
| "js_truthy (JSObj kvs) = True"

definition js_or :: "jsval \<Rightarrow> jsval \<Rightarrow> jsval" where
  "js_or a b = (if js_truthy a then a else b)"

subsection \<open>The map and its environment\<close>

text \<open>The options of \<open>ol.source.ImageStatic\<close> and of \<open>ol.layer.Image\<close>.\<close>

record image_static =
  url :: string
  imageExtent :: "jsval list"
  projection :: jsval

record image_layer =
  source :: image_static
  opacity :: rat

datatype layer = VectorTileLayer string | ImageLayer image_layer

text \<open>The state that \<open>loadGeoPNG\<close> acts on: the layer collection of the map and the console.\<close>

record viewer =
  layers :: "layer list"
  console :: "(string \<times> js_error) list"

text \<open>
  What lies outside the page: the outcome of \<open>fetch(url)\<close> (a response, whose \<open>json()\<close>
  gives a value or fails, or a rejection), and whether each of the two constructors of the
  mapping library throws on given options.
\<close>

record response =
  body_json :: "js_error + jsval"

record browser =
  fetch :: "string \<Rightarrow> js_error + response"
  ImageStatic_throws :: "image_static \<Rightarrow> js_error option"
  Image_throws :: "image_layer \<Rightarrow> js_error option"

definition new_ImageStatic :: "browser \<Rightarrow> image_static \<Rightarrow> js_error + image_static" where
  "new_ImageStatic env opts =
     (case ImageStatic_throws env opts of Some e \<Rightarrow> Inl e | None \<Rightarrow> Inr opts)"

definition new_Image :: "browser \<Rightarrow> image_layer \<Rightarrow> js_error + image_layer" where
  "new_Image env opts =
     (case Image_throws env opts of Some e \<Rightarrow> Inl e | None \<Rightarrow> Inr opts)"

text \<open>
  \<open>Collection.insertAt(index, elem)\<close> of the library version the page loads (10.3.1):
  an index beyond the length throws before anything is changed, otherwise the element is
  spliced in. The freshly constructed layer is a new object, so the uniqueness assertion of
  the collection cannot fail.
\<close>

definition insertAt :: "nat \<Rightarrow> 'a \<Rightarrow> 'a list \<Rightarrow> js_error + 'a list" where
  "insertAt index elem xs =
     (if index > length xs then Inl (Error ''Index out of bounds'')
      else Inr (take index xs @ elem # drop index xs))"

subsection \<open>\<open>loadGeoPNG\<close>\<close>

text \<open>The extent array built from the metadata.\<close>

definition extent_of :: "jsval \<Rightarrow> js_error + jsval list" where
  "extent_of metadata =
     (case get_prop metadata ''bounds'' of Inl e \<Rightarrow> Inl e | Inr bounds' \<Rightarrow>
     (case get_prop bounds' ''left'' of Inl e \<Rightarrow> Inl e | Inr l \<Rightarrow>
     (case get_prop bounds' ''bottom'' of Inl e \<Rightarrow> Inl e | Inr b \<Rightarrow>
     (case get_prop bounds' ''right'' of Inl e \<Rightarrow> Inl e | Inr r \<Rightarrow>
     (case get_prop bounds' ''top'' of Inl e \<Rightarrow> Inl e | Inr t \<Rightarrow>
        Inr [l, b, r, t])))))"

text \<open>The body of the \<open>try\<close> block: \<open>Inl\<close> is an exception thrown inside it.\<close>

definition loadGeoPNG_try :: "browser \<Rightarrow> string \<Rightarrow> string \<Rightarrow> viewer \<Rightarrow> js_error + viewer" where
  "loadGeoPNG_try env pngUrl metadataUrl v =
     (case fetch env metadataUrl of Inl e \<Rightarrow> Inl e | Inr metadataResponse \<Rightarrow>
     (case body_json metadataResponse of Inl e \<Rightarrow> Inl e | Inr metadata \<Rightarrow>
     (case extent_of metadata of Inl e \<Rightarrow> Inl e | Inr extent \<Rightarrow>
     (case get_prop metadata ''crs'' of Inl e \<Rightarrow> Inl e | Inr c \<Rightarrow>
     (case new_ImageStatic env
             \<lparr>url = pngUrl, imageExtent = extent,
              projection = js_or c (JSStr ''EPSG:4326'')\<rparr> of
        Inl e \<Rightarrow> Inl e
      | Inr src \<Rightarrow>
     (case new_Image env \<lparr>source = src, opacity = 9 / 10\<rparr> of
        Inl e \<Rightarrow> Inl e
      | Inr sifLayer \<Rightarrow>
     (case insertAt 1 (ImageLayer sifLayer) (layers v) of
        Inl e \<Rightarrow> Inl e
      | Inr ls \<Rightarrow> Inr (v\<lparr>layers := ls\<rparr>))))))))"

text \<open>
  The function: the handler of the \<open>try\<close> block logs the error to the console and returns.
  \<open>Inl\<close> would be a rejected promise, an exception that reaches the caller.
\<close>

definition loadGeoPNG :: "browser \<Rightarrow> string \<Rightarrow> string \<Rightarrow> viewer \<Rightarrow> js_error + viewer" where
  "loadGeoPNG env pngUrl metadataUrl v =
     (case loadGeoPNG_try env pngUrl metadataUrl v of
        Inr v' \<Rightarrow> Inr v'
      | Inl error \<Rightarrow> Inr (v\<lparr>console := console v @ [(''Error loading colormapped PNG:'', error)]\<rparr>))"

text \<open>The page's own call, on the map as the script has built it by then.\<close>

definition pngFile :: string where
  "pngFile = ''data/GOSIF_2020.M06.png''"

definition metadataFile :: string where
  "metadataFile = ''data/GOSIF_2020.M06_metadata.json''"

definition page_map :: viewer where
  "page_map = \<lparr>layers = [VectorTileLayer ''baseLayer'', VectorTileLayer ''labelsLayer''], console = []\<rparr>"

definition page :: "browser \<Rightarrow> js_error + viewer" where
  "page env = loadGeoPNG env pngFile metadataFile page_map"

text \<open>
  A browser that loads the page from the directory the notebook wrote to: a metadata file
  that is there and holds JSON is parsed; anything else (a missing file, answered with an
  error page, or a file of another kind) makes \<open>json()\<close> fail. The constructors of the
  mapping library do not throw.
\<close>

definition serve :: "fs \<Rightarrow> string \<Rightarrow> js_error + response" where
  "serve files path =
     (case files path of
        Some (JSONFile j) \<Rightarrow> Inr \<lparr>body_json = Inr (from_json j)\<rparr>
      | _ \<Rightarrow> Inr \<lparr>body_json = Inl SyntaxError\<rparr>)"

definition local_browser :: "fs \<Rightarrow> browser" where
  "local_browser files =
     \<lparr>fetch = serve files, ImageStatic_throws = (\<lambda>_. None), Image_throws = (\<lambda>_. None)\<rparr>"

section \<open>The download step of the second notebook\<close>

text \<open>
  Modelled from the spec: \<open>download_timerange\<close>, a method of the class
  \<open>GesDiscDownloader\<close> in the module \<open>geosif\<close>, which the notebook imports and which is
  not among the sources. The spec and the notebook say of it: it downloads the granules of
  a date range and returns three collections (successfully downloaded, dates with no
  data, failed downloads); invoked again over the same range it does not re-fetch files
  already present locally and reports them as already satisfied rather than failed
  ("simply retrying the operation will only download the files that you do not already
  have").

  Dates are day numbers. The catalog gives the file name of the granule of a date, if the
  archive has one; \<open>transfer_ok\<close> says whether fetching a file succeeds in this run.
  Besides the three collections the result records which files were fetched and which
  files are in the output directory afterwards. The dates are visited in order; with the
  parallel flag the collections hold the same members in another order.
\<close>

record download_result =
  dl_granules :: "string list"
  dates_notfound :: "nat list"
  failed_dls :: "string list"
  fetched :: "string list"
  local_files :: "string list"

definition download_date ::
  "(nat \<Rightarrow> string option) \<Rightarrow> (string \<Rightarrow> bool) \<Rightarrow> nat \<Rightarrow> download_result \<Rightarrow> download_result" where
  "download_date catalog transfer_ok d st =
     (case catalog d of
        None \<Rightarrow> st\<lparr>dates_notfound := dates_notfound st @ [d]\<rparr>
      | Some f \<Rightarrow>
          if f \<in> set (local_files st) then st\<lparr>dl_granules := dl_granules st @ [f]\<rparr>
          else if transfer_ok f then
            st\<lparr>dl_granules := dl_granules st @ [f], fetched := fetched st @ [f],
               local_files := local_files st @ [f]\<rparr>
          else st\<lparr>failed_dls := failed_dls st @ [f]\<rparr>)"

definition download_timerange ::
  "(nat \<Rightarrow> string option) \<Rightarrow> (string \<Rightarrow> bool) \<Rightarrow> nat \<Rightarrow> nat \<Rightarrow> string list \<Rightarrow> download_result" where
  "download_timerange catalog transfer_ok start_date end_date outpath_files =
     fold (download_date catalog transfer_ok) [start_date ..< Suc end_date]
       \<lparr>dl_granules = [], dates_notfound = [], failed_dls = [], fetched = [],
        local_files = outpath_files\<rparr>"

section \<open>Concrete inputs\<close>

text \<open>A raster of two rows and three columns with two fill values, under the path of the
  example invocation; a browser whose network is down; a small archive.\<close>

definition demo_raster :: raster where
  "demo_raster =
     \<lparr>bounds = \<lparr>left = -180, bottom = -90, right = 180, top' = 90\<rparr>,
      width = 3, height = 2, crs = Some ''EPSG:4326'',
      bands = [[[120, 32767, 5], [32766, 40, 7]]]\<rparr>"

definition demo_files :: fs where
  "demo_files = (\<lambda>_. None)(''data/GOSIF_2020.M06.tif'' \<mapsto> GeoTIFF demo_raster)"

definition fill_raster :: raster where
  "fill_raster = demo_raster\<lparr>bands := [[[32767, 32766, 32767], [32766, 32766, 32767]]]\<rparr>"

definition fill_files :: fs where
  "fill_files = (\<lambda>_. None)(''data/GOSIF_2020.M06.tif'' \<mapsto> GeoTIFF fill_raster)"

definition offline_browser :: browser where
  "offline_browser =
     \<lparr>fetch = (\<lambda>_. Inl NetworkError), ImageStatic_throws = (\<lambda>_. None),
      Image_throws = (\<lambda>_. None)\<rparr>"

definition demo_catalog :: "nat \<Rightarrow> string option" where
  "demo_catalog d =
     (if d = 1 then Some ''oco3_LtSIF_200401.nc4''
      else if d = 2 then None
      else if d = 3 then Some ''oco3_LtSIF_200403.nc4''
      else None)"

text \<open>Metadata files without and with a coordinate reference system of their own, and a
  browser in which the constructor of the image layer throws.\<close>

definition nocrs_files :: fs where
  "nocrs_files =
     (\<lambda>_. None)(''data/GOSIF_2020.M06_metadata.json'' \<mapsto>
        JSONFile (JObj [(''bounds'', JObj [(''left'', JFloat 0), (''bottom'', JFloat 0),
                                           (''right'', JFloat 10), (''top'', JFloat 5)]),
                        (''width'', JInt 2), (''height'', JInt 1)]))"

definition mercator_files :: fs where
  "mercator_files =
     (\<lambda>_. None)(''data/GOSIF_2020.M06_metadata.json'' \<mapsto>
        JSONFile (JObj [(''bounds'', JObj [(''left'', JFloat 0), (''bottom'', JFloat 0),
                                           (''right'', JFloat 10), (''top'', JFloat 5)]),
                        (''width'', JInt 2), (''height'', JInt 1),
                        (''crs'', JStr ''EPSG:3857'')]))"

definition throwing_browser :: "fs \<Rightarrow> browser" where
  "throwing_browser files =
     \<lparr>fetch = serve files, ImageStatic_throws = (\<lambda>_. None),
      Image_throws = (\<lambda>_. Some (Error ''layer''))\<rparr>"

section \<open>Properties of the conversion\<close>

subsection \<open>The masked array of the conversion\<close>

lemma zip_map_self: "zip row (map P row) = map (\<lambda>v. (v, P v)) row"
  by (induction row) simp_all

lemma masked_array_rows:
  "masked_array data (map (map P) data) = map (map (\<lambda>v. (v, P v))) data"
  by (induction data) (simp_all add: masked_array_def zip_map_self)

lemma concat_masked:
  "concat (masked_array data (map (map P) data)) = map (\<lambda>v. (v, P v)) (concat data)"
  by (simp add: masked_array_rows map_concat)

lemma unmasked_gt:
  "unmasked (map (\<lambda>v. (v, v > t)) xs) = filter (\<lambda>v. v \<le> t) xs"
  by (induction xs) (simp_all add: unmasked_def)

lemma unmasked_all_False: "unmasked (map (\<lambda>v. (v, False)) xs) = xs"
  by (induction xs) (simp_all add: unmasked_def)

lemma getitem_le:
  "ma_getitem (masked_array data (map (map (\<lambda>v. v > t)) data))
      (ma_le (masked_array data (map (map (\<lambda>v. v > t)) data)) t)
   = map (\<lambda>v. (v, False)) (filter (\<lambda>v. v \<le> t) (concat data))"
proof -
  have "map fst (filter (\<lambda>(c, i). fst i)
          (zip (map (\<lambda>v. (v, t < v)) xs) (map (\<lambda>v. (v \<le> t, t < v)) xs)))
        = map (\<lambda>v. (v, False)) (filter (\<lambda>v. v \<le> t) xs)" for xs :: "int list"
    by (induction xs) auto
  then show ?thesis
    by (simp add: ma_getitem_def ma_le_def masked_array_rows map_concat [symmetric] comp_def)
qed

lemma fold_min_Min: "fold min xs (x::int) = Min (set (x # xs))"
  by (simp only: Min.set_eq_fold)

lemma fold_max_Max: "fold max xs (x::int) = Max (set (x # xs))"
  by (simp only: Max.set_eq_fold)

lemma nanmin_valid:
  "nanmin (map (\<lambda>v. (v, v > t)) xs) =
     (if xs = [] then Inl ValueError
      else if filter (\<lambda>v. v \<le> t) xs = [] then Inr None
      else Inr (Some (Min (set (filter (\<lambda>v. v \<le> t) xs)))))"
proof (cases "filter (\<lambda>v. v \<le> t) xs")
  case Nil
  then show ?thesis by (simp add: nanmin_def unmasked_gt)
next
  case (Cons y ys)
  then have "xs \<noteq> []" by auto
  with Cons show ?thesis
    by (simp add: nanmin_def unmasked_gt fold_min_Min del: set_filter)
qed

lemma nanmax_valid:
  "nanmax (map (\<lambda>v. (v, False)) xs) =
     (if xs = [] then Inl ValueError else Inr (Some (Max (set xs))))"
  by (auto simp: nanmax_def unmasked_all_False fold_max_Max split: list.splits)

lemma filter_nonempty_concat: "filter P (concat data) \<noteq> [] \<Longrightarrow> concat data \<noteq> []"
  by (cases "concat data") simp_all

text \<open>The conversion, step by step, with the two reductions computed.\<close>

lemma convert_unfold:
  "convert_geotiff_to_png g p m thr files =
     (case rasterio_open files g of Inl e \<Rightarrow> Inl e | Inr src \<Rightarrow>
     (case read src 1 of Inl e \<Rightarrow> Inl e | Inr data \<Rightarrow>
     (case crs src of None \<Rightarrow> Inl AttributeError | Some c \<Rightarrow>
        if filter (\<lambda>v. v \<le> threshold_of thr) (concat data) = [] then Inl ValueError
        else Inr (files(p \<mapsto> PNG (savefig
                                (imshow (masked_array data (map (map (\<lambda>v. v > threshold_of thr)) data))
                                  (set_bad viridis 0)
                                  (Normalize
                                    (Some (Min (set (filter (\<lambda>v. v \<le> threshold_of thr) (concat data)))))
                                    (Some (Max (set (filter (\<lambda>v. v \<le> threshold_of thr) (concat data))))))) True),
                        m \<mapsto> JSONFile (metadata_of src c))))))"
proof (cases "rasterio_open files g")
  case (Inl e)
  then show ?thesis by (simp add: convert_geotiff_to_png_def)
next
  case (Inr src)
  note op = this
  show ?thesis
  proof (cases "read src 1")
    case (Inl e)
    with op show ?thesis by (simp add: convert_geotiff_to_png_def)
  next
    case (Inr data)
    note rd = this
    show ?thesis
    proof (cases "crs src")
      case None
      with op rd show ?thesis by (simp add: convert_geotiff_to_png_def crs_to_string_def)
    next
      case (Some c)
      let ?t = "threshold_of thr"
      let ?valid = "filter (\<lambda>v. v \<le> ?t) (concat data)"
      show ?thesis
      proof (cases "?valid = []")
        case True
        with op rd Some show ?thesis
          by (simp add: convert_geotiff_to_png_def crs_to_string_def Let_def concat_masked
              getitem_le nanmin_valid nanmax_def)
      next
        case False
        then have ne: "concat data \<noteq> []" by (rule filter_nonempty_concat)
        have mn: "nanmin (concat (masked_array data (map (map (\<lambda>v. v > ?t)) data)))
                  = Inr (Some (Min (set ?valid)))"
          using ne False by (simp add: concat_masked nanmin_valid del: set_filter)
        have mx: "nanmax (ma_getitem (masked_array data (map (map (\<lambda>v. v > ?t)) data))
                    (ma_le (masked_array data (map (map (\<lambda>v. v > ?t)) data)) ?t))
                  = Inr (Some (Max (set ?valid)))"
          using False by (simp add: getitem_le nanmax_valid del: set_filter)
        show ?thesis
          using op rd Some False mn mx
          by (simp add: convert_geotiff_to_png_def crs_to_string_def Let_def del: set_filter)
      qed
    qed
  qed
qed

lemma saved_masked_cell:
  assumes "i < length data" "j < length (data ! i)"
  shows "alpha (savefig (imshow (masked_array data (map (map P) data)) cmap n) tr ! i ! j)
         = alpha (imshow_cell cmap n (data ! i ! j, P (data ! i ! j)))
           + (if tr then 0 else 1) * (1 - alpha (imshow_cell cmap n (data ! i ! j, P (data ! i ! j))))"
  using assms by (simp add: savefig_def imshow_def masked_array_rows)

lemma saved_masked_shape:
  "length (savefig (imshow (masked_array data (map (map P) data)) cmap n) tr) = length data"
  "i < length data \<Longrightarrow>
     length (savefig (imshow (masked_array data (map (map P) data)) cmap n) tr ! i)
       = length (data ! i)"
  by (simp_all add: savefig_def imshow_def masked_array_rows)

lemma nth_nth_in_concat:
  "i < length data \<Longrightarrow> j < length (data ! i) \<Longrightarrow> data ! i ! j \<in> set (concat data)"
  by (metis nth_mem set_concat UN_I)

subsection \<open>Masking\<close>

text \<open>
  Claim C1. When the conversion succeeds on a raster whose first band is \<open>data\<close>, the
  colour scale runs from the minimum to the maximum of the values of the band that are at
  most the threshold (there is at least one), and every cell whose value is strictly
  greater than the threshold is rendered with alpha 0 and lies outside that range. The
  image has the shape of the band.
\<close>

theorem masking_correct:
  assumes conv: "convert_geotiff_to_png g p m thr files = Inr files'"
    and op: "rasterio_open files g = Inr src"
    and rd: "read src 1 = Inr data"
  shows "\<exists>lo hi image c.
      files' = files(p \<mapsto> PNG image, m \<mapsto> JSONFile (metadata_of src c)) \<and>
      image = savefig
                (imshow (masked_array data (map (map (\<lambda>v. v > threshold_of thr)) data))
                   (set_bad viridis 0) (Normalize (Some lo) (Some hi))) True \<and>
      {v \<in> set (concat data). v \<le> threshold_of thr} \<noteq> {} \<and>
      lo = Min {v \<in> set (concat data). v \<le> threshold_of thr} \<and>
      hi = Max {v \<in> set (concat data). v \<le> threshold_of thr} \<and>
      length image = length data \<and>
      (\<forall>i < length data. length (image ! i) = length (data ! i) \<and>
         (\<forall>j < length (data ! i). data ! i ! j > threshold_of thr \<longrightarrow>
            alpha (image ! i ! j) = 0 \<and> \<not> (lo \<le> data ! i ! j \<and> data ! i ! j \<le> hi)))"
proof -
  let ?t = "threshold_of thr"
  let ?V = "{v \<in> set (concat data). v \<le> ?t}"
  let ?lo = "Min ?V" and ?hi = "Max ?V"
  let ?image = "savefig (imshow (masked_array data (map (map (\<lambda>v. v > ?t)) data))
                  (set_bad viridis 0) (Normalize (Some ?lo) (Some ?hi))) True"
  have V: "set (filter (\<lambda>v. v \<le> ?t) (concat data)) = ?V" by auto
  from conv op rd obtain c where c: "crs src = Some c"
    by (auto simp: convert_unfold split: option.splits)
  from conv op rd c have ne: "filter (\<lambda>v. v \<le> ?t) (concat data) \<noteq> []"
    by (auto simp: convert_unfold split: if_splits)
  then have Vne: "?V \<noteq> {}" by (metis V set_empty)
  have fin: "finite ?V" by simp
  from conv op rd c ne have files': "files' = files(p \<mapsto> PNG ?image, m \<mapsto> JSONFile (metadata_of src c))"
    by (simp add: convert_unfold del: set_filter add: V)
  have hi_le: "?hi \<le> ?t"
    using Max_in [OF fin Vne] by simp
  have cells: "alpha (?image ! i ! j) = 0 \<and> \<not> (?lo \<le> data ! i ! j \<and> data ! i ! j \<le> ?hi)"
    if "i < length data" "j < length (data ! i)" "data ! i ! j > ?t" for i j
    using that hi_le
    by (simp add: saved_masked_cell imshow_cell_def set_bad_def viridis_def)
  have shape: "length ?image = length data"
    "\<And>i. i < length data \<Longrightarrow> length (?image ! i) = length (data ! i)"
    by (simp_all add: saved_masked_shape)
  show ?thesis
    using files' Vne shape cells by blast
qed

lemma demo_open:
  "rasterio_open demo_files ''data/GOSIF_2020.M06.tif'' = Inr demo_raster"
  by (simp add: rasterio_open_def demo_files_def)

lemma demo_read: "read demo_raster 1 = Inr [[120, 32767, 5], [32766, 40, 7]]"
  by (simp add: read_def demo_raster_def)

lemma demo_converts:
  "\<exists>files'. convert_geotiff_to_png ''data/GOSIF_2020.M06.tif'' ''data/GOSIF_2020.M06.png''
       ''data/GOSIF_2020.M06_metadata.json'' None demo_files = Inr files'"
proof -
  have "crs demo_raster = Some ''EPSG:4326''" by (simp add: demo_raster_def)
  then show ?thesis
    by (simp add: convert_unfold demo_open demo_read [unfolded One_nat_def]
        threshold_of_def threshold_default_def)
qed

theorem masking_correct_witness:
  "\<exists>files' image.
      example_usage demo_files = Inr files' \<and>
      files' ''data/GOSIF_2020.M06.png'' = Some (PNG image) \<and>
      length image = 2 \<and> length (image ! 0) = 3 \<and>
      alpha (image ! 0 ! 1) = 0 \<and> alpha (image ! 1 ! 0) = 0"
proof -
  let ?data = "[[120, 32767, 5], [32766, 40, 7 :: int]]"
  from demo_converts obtain files' where
    h: "convert_geotiff_to_png ''data/GOSIF_2020.M06.tif'' ''data/GOSIF_2020.M06.png''
          ''data/GOSIF_2020.M06_metadata.json'' None demo_files = Inr files'" ..
  from masking_correct [OF h demo_open demo_read] obtain lo hi image c where
    files': "files' = demo_files(''data/GOSIF_2020.M06.png'' \<mapsto> PNG image,
               ''data/GOSIF_2020.M06_metadata.json'' \<mapsto> JSONFile (metadata_of demo_raster c))"
    and len: "length image = length ?data"
    and cells: "\<forall>i < length ?data. length (image ! i) = length (?data ! i) \<and>
         (\<forall>j < length (?data ! i). ?data ! i ! j > threshold_of None \<longrightarrow>
            alpha (image ! i ! j) = 0 \<and> \<not> (lo \<le> ?data ! i ! j \<and> ?data ! i ! j \<le> hi))"
    by blast
  from cells [rule_format, of 0] have r0: "length (image ! 0) = 3" "alpha (image ! 0 ! 1) = 0"
    by (simp_all add: threshold_of_def threshold_default_def)
  from cells [rule_format, of 1] have r1: "alpha (image ! 1 ! 0) = 0"
    by (simp add: threshold_of_def threshold_default_def)
  from files' have "files' ''data/GOSIF_2020.M06.png'' = Some (PNG image)" by simp
  with h len r0 r1 show ?thesis by (simp add: example_usage_def)
qed

subsection \<open>The default threshold\<close>

text \<open>
  Claim C8. A call that does not pass the threshold runs with 32760, and the example
  invocation is such a call.
\<close>

theorem threshold_defaults_to_32760:
  "threshold_of None = 32760 \<and>
   convert_geotiff_to_png g p m None files = convert_geotiff_to_png g p m (Some 32760) files \<and>
   example_usage files =
     convert_geotiff_to_png ''data/GOSIF_2020.M06.tif'' ''data/GOSIF_2020.M06.png''
       ''data/GOSIF_2020.M06_metadata.json'' (Some 32760) files"
  by (simp add: example_usage_def convert_geotiff_to_png_def threshold_of_def threshold_default_def)

subsection \<open>A band without a valid value\<close>

text \<open>
  Claim C9. On a raster that opens, has a first band and a coordinate reference system:
  if every value of the band exceeds the threshold, the maximum over the (empty)
  selection of values at most the threshold raises \<open>ValueError\<close> and so does the
  conversion, while the minimum, on a band that has a cell, does not raise (it is the
  masked constant); if some value is at most the threshold, neither reduction raises and
  the conversion returns.
\<close>

theorem no_valid_pixel_fails:
  assumes op: "rasterio_open files g = Inr src"
    and rd: "read src 1 = Inr data"
    and c: "crs src = Some c"
  shows
    "((\<forall>v \<in> set (concat data). v > threshold_of thr) \<longrightarrow>
        nanmax (ma_getitem (masked_array data (map (map (\<lambda>v. v > threshold_of thr)) data))
                 (ma_le (masked_array data (map (map (\<lambda>v. v > threshold_of thr)) data))
                    (threshold_of thr))) = Inl ValueError \<and>
        convert_geotiff_to_png g p m thr files = Inl ValueError \<and>
        (concat data \<noteq> [] \<longrightarrow>
           nanmin (concat (masked_array data (map (map (\<lambda>v. v > threshold_of thr)) data)))
             = Inr None)) \<and>
     ((\<exists>v \<in> set (concat data). v \<le> threshold_of thr) \<longrightarrow>
        (\<exists>lo hi files'.
           nanmin (concat (masked_array data (map (map (\<lambda>v. v > threshold_of thr)) data)))
             = Inr (Some lo) \<and>
           nanmax (ma_getitem (masked_array data (map (map (\<lambda>v. v > threshold_of thr)) data))
                 (ma_le (masked_array data (map (map (\<lambda>v. v > threshold_of thr)) data))
                    (threshold_of thr))) = Inr (Some hi) \<and>
           convert_geotiff_to_png g p m thr files = Inr files'))"
proof -
  let ?t = "threshold_of thr"
  let ?valid = "filter (\<lambda>v. v \<le> ?t) (concat data)"
  have none: "?valid = []" if "\<forall>v \<in> set (concat data). v > ?t"
    using that by (simp add: filter_empty_conv not_le del: set_concat)
  have some: "?valid \<noteq> []" if "\<exists>v \<in> set (concat data). v \<le> ?t"
    using that by (simp add: filter_empty_conv del: set_concat)
  have a: "nanmax (ma_getitem (masked_array data (map (map (\<lambda>v. v > ?t)) data))
                 (ma_le (masked_array data (map (map (\<lambda>v. v > ?t)) data)) ?t)) = Inl ValueError"
    if "?valid = []"
    using that by (simp add: getitem_le nanmax_def)
  have b: "convert_geotiff_to_png g p m thr files = Inl ValueError" if "?valid = []"
    using that op rd c by (simp add: convert_unfold)
  have d: "nanmin (concat (masked_array data (map (map (\<lambda>v. v > ?t)) data))) = Inr None"
    if "?valid = []" "concat data \<noteq> []"
    using that by (simp add: concat_masked nanmin_valid)
  have e: "\<exists>lo. nanmin (concat (masked_array data (map (map (\<lambda>v. v > ?t)) data))) = Inr (Some lo)"
    if "?valid \<noteq> []"
    using that filter_nonempty_concat [OF that]
    by (simp add: concat_masked nanmin_valid del: set_filter)
  have f: "\<exists>hi. nanmax (ma_getitem (masked_array data (map (map (\<lambda>v. v > ?t)) data))
                 (ma_le (masked_array data (map (map (\<lambda>v. v > ?t)) data)) ?t)) = Inr (Some hi)"
    if "?valid \<noteq> []"
    using that by (simp add: getitem_le nanmax_valid del: set_filter)
  have g: "\<exists>files'. convert_geotiff_to_png g p m thr files = Inr files'" if "?valid \<noteq> []"
    using that op rd c by (simp add: convert_unfold del: set_filter)
  show ?thesis
    using none some a b d e f g by blast
qed

lemma fill_open:
  "rasterio_open fill_files ''data/GOSIF_2020.M06.tif'' = Inr fill_raster"
  by (simp add: rasterio_open_def fill_files_def)

lemma fill_read: "read fill_raster 1 = Inr [[32767, 32766, 32767], [32766, 32766, 32767]]"
  by (simp add: read_def fill_raster_def demo_raster_def)

theorem no_valid_pixel_fails_witness:
  "example_usage fill_files = Inl ValueError \<and>
   (\<exists>files'. example_usage demo_files = Inr files')"
proof -
  have c1: "crs fill_raster = Some ''EPSG:4326''" by (simp add: fill_raster_def demo_raster_def)
  have c2: "crs demo_raster = Some ''EPSG:4326''" by (simp add: demo_raster_def)
  have all_fill: "\<forall>v \<in> set (concat [[32767, 32766, 32767], [32766, 32766, 32767 :: int]]).
                    v > threshold_of None"
    by (simp add: threshold_of_def threshold_default_def)
  have one_valid: "\<exists>v \<in> set (concat [[120, 32767, 5], [32766, 40, 7 :: int]]).
                    v \<le> threshold_of None"
    by (simp add: threshold_of_def threshold_default_def)
  from no_valid_pixel_fails [OF fill_open fill_read c1, of None
        "''data/GOSIF_2020.M06.png''" "''data/GOSIF_2020.M06_metadata.json''"] all_fill
  have "example_usage fill_files = Inl ValueError"
    unfolding example_usage_def by blast
  moreover
  from no_valid_pixel_fails [OF demo_open demo_read c2, of None
        "''data/GOSIF_2020.M06.png''" "''data/GOSIF_2020.M06_metadata.json''"] one_valid
  have "\<exists>files'. example_usage demo_files = Inr files'"
    unfolding example_usage_def by blast
  ultimately show ?thesis by (rule conjI)
qed

section \<open>Properties of the viewer\<close>

lemma loadGeoPNG_returns: "\<exists>v'. loadGeoPNG env p m v = Inr v'"
  by (simp add: loadGeoPNG_def split: sum.splits)

lemma loadGeoPNG_caught:
  "loadGeoPNG_try env p m v = Inl e \<Longrightarrow>
   loadGeoPNG env p m v = Inr (v\<lparr>console := console v @ [(''Error loading colormapped PNG:'', e)]\<rparr>)"
  by (simp add: loadGeoPNG_def)

lemma loadGeoPNG_passed:
  "loadGeoPNG_try env p m v = Inr v' \<Longrightarrow> loadGeoPNG env p m v = Inr v'"
  by (simp add: loadGeoPNG_def)

lemma insertAt_1: "insertAt (Suc 0) x xs = Inr ys \<Longrightarrow> xs \<noteq> [] \<and> ys = take 1 xs @ x # drop 1 xs"
  by (cases xs) (auto simp: insertAt_def split: if_splits)

lemma loadGeoPNG_try_Inr:
  assumes "loadGeoPNG_try env p m v = Inr v'"
  shows "\<exists>resp metadata extent c.
           fetch env m = Inr resp \<and> body_json resp = Inr metadata \<and>
           extent_of metadata = Inr extent \<and> get_prop metadata ''crs'' = Inr c \<and>
           layers v \<noteq> [] \<and>
           v' = v\<lparr>layers := take 1 (layers v) @
                  ImageLayer \<lparr>source = \<lparr>url = p, imageExtent = extent,
                                    projection = js_or c (JSStr ''EPSG:4326'')\<rparr>,
                         opacity = 9 / 10\<rparr> # drop 1 (layers v)\<rparr>"
  using assms
  by (auto simp: loadGeoPNG_try_def new_ImageStatic_def new_Image_def
      split: sum.splits option.splits dest!: insertAt_1)

lemma extent_of_Inr:
  assumes "extent_of metadata = Inr extent"
  shows "\<exists>kvs. metadata = JSObj kvs"
  using assms by (cases metadata) (simp_all add: extent_of_def)

lemma extent_of_object:
  "extent_of (JSObj kvs) = Inr extent \<Longrightarrow> map_of kvs ''bounds'' = Some (JSObj b) \<Longrightarrow>
   extent = map (\<lambda>k. case map_of b k of None \<Rightarrow> JSUndefined | Some x \<Rightarrow> x)
              [''left'', ''bottom'', ''right'', ''top'']"
  by (auto simp: extent_of_def)

lemma extent_of_metadata:
  "extent_of (from_json (metadata_of src c)) =
     Inr [JSNum (left (bounds src)), JSNum (bottom (bounds src)),
          JSNum (right (bounds src)), JSNum (top' (bounds src))]"
  by (simp add: extent_of_def metadata_of_def asdict_def)

lemma crs_of_metadata: "get_prop (from_json (metadata_of src c)) ''crs'' = Inr (JSStr c)"
  by (simp add: metadata_of_def asdict_def)

lemma convert_writes_metadata:
  assumes "convert_geotiff_to_png g p m thr files = Inr files'"
    and "rasterio_open files g = Inr src"
  shows "\<exists>c. crs src = Some c \<and> files' m = Some (JSONFile (metadata_of src c))"
  using assms by (auto simp: convert_unfold split: sum.splits option.splits if_splits)

lemma loadGeoPNG_local:
  assumes "files m = Some (JSONFile j)" "extent_of (from_json j) = Inr extent"
    "get_prop (from_json j) ''crs'' = Inr c" "layers v \<noteq> []"
  shows "loadGeoPNG_try (local_browser files) p m v =
           Inr (v\<lparr>layers := take 1 (layers v) @
                  ImageLayer \<lparr>source = \<lparr>url = p, imageExtent = extent,
                                    projection = js_or c (JSStr ''EPSG:4326'')\<rparr>,
                         opacity = 9 / 10\<rparr> # drop 1 (layers v)\<rparr>)"
  using assms
  by (cases "layers v")
     (simp_all add: loadGeoPNG_try_def local_browser_def serve_def new_ImageStatic_def
        new_Image_def insertAt_def)

subsection \<open>The metadata from the notebook to the page\<close>

text \<open>
  Claim C2. When the conversion of a raster succeeds, a page that loads the metadata file
  it wrote (into a map that has a layer) inserts an image layer whose extent is
  \<open>[left, bottom, right, top]\<close> of the bounds of that raster.
\<close>

theorem bounds_round_trip:
  assumes conv: "convert_geotiff_to_png g p m thr files = Inr files'"
    and op: "rasterio_open files g = Inr src"
    and ls: "layers v \<noteq> []"
  shows "\<exists>lyr.
      loadGeoPNG (local_browser files') pngUrl m v
        = Inr (v\<lparr>layers := take 1 (layers v) @ ImageLayer lyr # drop 1 (layers v)\<rparr>) \<and>
      imageExtent (source lyr)
        = [JSNum (left (bounds src)), JSNum (bottom (bounds src)),
           JSNum (right (bounds src)), JSNum (top' (bounds src))]"
proof -
  from convert_writes_metadata [OF conv op] obtain c where
    m: "files' m = Some (JSONFile (metadata_of src c))" by blast
  from loadGeoPNG_local [of files' m "metadata_of src c", OF m extent_of_metadata crs_of_metadata ls]
  have "loadGeoPNG_try (local_browser files') pngUrl m v =
          Inr (v\<lparr>layers := take 1 (layers v) @
                 ImageLayer \<lparr>source = \<lparr>url = pngUrl,
                        imageExtent = [JSNum (left (bounds src)), JSNum (bottom (bounds src)),
                                       JSNum (right (bounds src)), JSNum (top' (bounds src))],
                        projection = js_or (JSStr c) (JSStr ''EPSG:4326'')\<rparr>,
                   opacity = 9 / 10\<rparr> # drop 1 (layers v)\<rparr>)" .
  from loadGeoPNG_passed [OF this] show ?thesis
    by (intro exI [of _ "\<lparr>source = \<lparr>url = pngUrl,
                        imageExtent = [JSNum (left (bounds src)), JSNum (bottom (bounds src)),
                                       JSNum (right (bounds src)), JSNum (top' (bounds src))],
                        projection = js_or (JSStr c) (JSStr ''EPSG:4326'')\<rparr>,
                   opacity = 9 / 10\<rparr>"]) simp
qed

theorem bounds_round_trip_witness:
  "\<exists>files' lyr.
      example_usage demo_files = Inr files' \<and>
      page (local_browser files')
        = Inr \<lparr>layers = [VectorTileLayer ''baseLayer'', ImageLayer lyr,
                         VectorTileLayer ''labelsLayer''], console = []\<rparr> \<and>
      imageExtent (source lyr) = [JSNum (-180), JSNum (-90), JSNum 180, JSNum 90]"
proof -
  from demo_converts obtain files' where
    h: "convert_geotiff_to_png ''data/GOSIF_2020.M06.tif'' ''data/GOSIF_2020.M06.png''
          ''data/GOSIF_2020.M06_metadata.json'' None demo_files = Inr files'" ..
  have ls: "layers page_map \<noteq> []" by (simp add: page_map_def)
  from bounds_round_trip [OF h demo_open ls, of pngFile] obtain lyr where
    "loadGeoPNG (local_browser files') pngFile ''data/GOSIF_2020.M06_metadata.json'' page_map
       = Inr (page_map\<lparr>layers := take 1 (layers page_map) @ ImageLayer lyr # drop 1 (layers page_map)\<rparr>)"
    "imageExtent (source lyr)
        = [JSNum (left (bounds demo_raster)), JSNum (bottom (bounds demo_raster)),
           JSNum (right (bounds demo_raster)), JSNum (top' (bounds demo_raster))]"
    by blast
  with h show ?thesis
    by (intro exI [of _ files'] exI [of _ lyr])
       (simp add: example_usage_def page_def metadataFile_def page_map_def demo_raster_def)
qed

text \<open>
  Claim C3. The metadata file that a successful conversion writes is an object with the
  members \<open>bounds\<close> (an object with the four numbers \<open>left\<close>, \<open>bottom\<close>, \<open>right\<close>,
  \<open>top\<close>), \<open>width\<close> and \<open>height\<close> (integers) and \<open>crs\<close> (a string), in this order
  and no others; and the extent of the layer the page inserts is made of exactly the
  members \<open>left\<close>, \<open>bottom\<close>, \<open>right\<close>, \<open>top\<close> of the \<open>bounds\<close> object of the metadata.
\<close>

theorem sidecar_format:
  "(convert_geotiff_to_png g p m thr files = Inr files' \<and> rasterio_open files g = Inr src \<longrightarrow>
      (\<exists>c. crs src = Some c \<and>
           files' m = Some (JSONFile (JObj
             [(''bounds'', JObj [(''left'', JFloat (left (bounds src))),
                                 (''bottom'', JFloat (bottom (bounds src))),
                                 (''right'', JFloat (right (bounds src))),
                                 (''top'', JFloat (top' (bounds src)))]),
              (''width'', JInt (int (width src))),
              (''height'', JInt (int (height src))),
              (''crs'', JStr c)])))) \<and>
   (fetch env metadataUrl = Inr resp \<and> body_json resp = Inr (JSObj kvs) \<and>
    map_of kvs ''bounds'' = Some (JSObj b) \<and>
    loadGeoPNG_try env pngUrl metadataUrl v = Inr v' \<longrightarrow>
      (\<exists>lyr. layers v' = take 1 (layers v) @ ImageLayer lyr # drop 1 (layers v) \<and>
             imageExtent (source lyr) =
               map (\<lambda>k. case map_of b k of None \<Rightarrow> JSUndefined | Some x \<Rightarrow> x)
                 [''left'', ''bottom'', ''right'', ''top'']))"
proof (intro conjI impI)
  assume "convert_geotiff_to_png g p m thr files = Inr files' \<and> rasterio_open files g = Inr src"
  then show "\<exists>c. crs src = Some c \<and>
           files' m = Some (JSONFile (JObj
             [(''bounds'', JObj [(''left'', JFloat (left (bounds src))),
                                 (''bottom'', JFloat (bottom (bounds src))),
                                 (''right'', JFloat (right (bounds src))),
                                 (''top'', JFloat (top' (bounds src)))]),
              (''width'', JInt (int (width src))),
              (''height'', JInt (int (height src))),
              (''crs'', JStr c)]))"
    using convert_writes_metadata [of g p m thr files files' src]
    by (simp add: metadata_of_def asdict_def)
next
  assume a: "fetch env metadataUrl = Inr resp \<and> body_json resp = Inr (JSObj kvs) \<and>
    map_of kvs ''bounds'' = Some (JSObj b) \<and>
    loadGeoPNG_try env pngUrl metadataUrl v = Inr v'"
  then obtain resp' metadata extent c where
    r: "fetch env metadataUrl = Inr resp'" "body_json resp' = Inr metadata"
       "extent_of metadata = Inr extent"
       "v' = v\<lparr>layers := take 1 (layers v) @
                  ImageLayer \<lparr>source = \<lparr>url = pngUrl, imageExtent = extent,
                                    projection = js_or c (JSStr ''EPSG:4326'')\<rparr>,
                         opacity = 9 / 10\<rparr> # drop 1 (layers v)\<rparr>"
    using loadGeoPNG_try_Inr [of env pngUrl metadataUrl v v'] by blast
  from a r have "metadata = JSObj kvs" by simp
  with r(3) a have "extent = map (\<lambda>k. case map_of b k of None \<Rightarrow> JSUndefined | Some x \<Rightarrow> x)
                 [''left'', ''bottom'', ''right'', ''top'']"
    using extent_of_object by blast
  with r(4) show "\<exists>lyr. layers v' = take 1 (layers v) @ ImageLayer lyr # drop 1 (layers v) \<and>
             imageExtent (source lyr) =
               map (\<lambda>k. case map_of b k of None \<Rightarrow> JSUndefined | Some x \<Rightarrow> x)
                 [''left'', ''bottom'', ''right'', ''top'']"
    by (intro exI [of _ "\<lparr>source = \<lparr>url = pngUrl, imageExtent = extent,
                                    projection = js_or c (JSStr ''EPSG:4326'')\<rparr>,
                         opacity = 9 / 10\<rparr>"]) simp
qed

theorem sidecar_format_witness:
  "\<exists>files' v' lyr.
      example_usage demo_files = Inr files' \<and>
      files' metadataFile = Some (JSONFile (JObj
             [(''bounds'', JObj [(''left'', JFloat (-180)), (''bottom'', JFloat (-90)),
                                 (''right'', JFloat 180), (''top'', JFloat 90)]),
              (''width'', JInt 3), (''height'', JInt 2), (''crs'', JStr ''EPSG:4326'')])) \<and>
      loadGeoPNG_try (local_browser files') pngFile metadataFile page_map = Inr v' \<and>
      layers v' = [VectorTileLayer ''baseLayer'', ImageLayer lyr, VectorTileLayer ''labelsLayer''] \<and>
      imageExtent (source lyr) = [JSNum (-180), JSNum (-90), JSNum 180, JSNum 90]"
proof -
  let ?b = "[(''left'', JSNum (-180)), (''bottom'', JSNum (-90)),
             (''right'', JSNum 180), (''top'', JSNum 90)]"
  let ?kvs = "[(''crs'', JSStr ''EPSG:4326''), (''height'', JSNum 2), (''width'', JSNum 3),
               (''bounds'', JSObj (rev ?b))]"
  from demo_converts obtain files' where
    h: "convert_geotiff_to_png ''data/GOSIF_2020.M06.tif'' ''data/GOSIF_2020.M06.png''
          metadataFile None demo_files = Inr files'"
    unfolding metadataFile_def ..
  from sidecar_format [THEN conjunct1, rule_format, OF conjI [OF h demo_open]]
  have written: "files' metadataFile = Some (JSONFile (JObj
             [(''bounds'', JObj [(''left'', JFloat (-180)), (''bottom'', JFloat (-90)),
                                 (''right'', JFloat 180), (''top'', JFloat 90)]),
              (''width'', JInt 3), (''height'', JInt 2), (''crs'', JStr ''EPSG:4326'')]))"
    by (auto simp: demo_raster_def)
  have f: "fetch (local_browser files') metadataFile = Inr \<lparr>body_json = Inr (JSObj ?kvs)\<rparr>"
    by (simp add: local_browser_def serve_def written)
  have t: "loadGeoPNG_try (local_browser files') pngFile metadataFile page_map =
             Inr (page_map\<lparr>layers := take 1 (layers page_map) @
                  ImageLayer \<lparr>source = \<lparr>url = pngFile,
                        imageExtent = [JSNum (-180), JSNum (-90), JSNum 180, JSNum 90],
                        projection = js_or (JSStr ''EPSG:4326'') (JSStr ''EPSG:4326'')\<rparr>,
                      opacity = 9 / 10\<rparr> # drop 1 (layers page_map)\<rparr>)"
    by (rule loadGeoPNG_local [of files' metadataFile, OF written])
       (simp_all add: extent_of_def page_map_def)
  have "\<exists>lyr. layers (page_map\<lparr>layers := take 1 (layers page_map) @
                  ImageLayer \<lparr>source = \<lparr>url = pngFile,
                        imageExtent = [JSNum (-180), JSNum (-90), JSNum 180, JSNum 90],
                        projection = js_or (JSStr ''EPSG:4326'') (JSStr ''EPSG:4326'')\<rparr>,
                      opacity = 9 / 10\<rparr> # drop 1 (layers page_map)\<rparr>)
              = take 1 (layers page_map) @ ImageLayer lyr # drop 1 (layers page_map) \<and>
             imageExtent (source lyr) =
               map (\<lambda>k. case map_of (rev ?b) k of None \<Rightarrow> JSUndefined | Some x \<Rightarrow> x)
                 [''left'', ''bottom'', ''right'', ''top'']"
    by (rule sidecar_format [where env = "local_browser files'" and metadataUrl = metadataFile
          and resp = "\<lparr>body_json = Inr (JSObj ?kvs)\<rparr>" and kvs = ?kvs and pngUrl = pngFile
          and v = page_map, THEN conjunct2, rule_format])
       (simp add: f t)
  then obtain lyr where
    "layers (page_map\<lparr>layers := take 1 (layers page_map) @
                  ImageLayer \<lparr>source = \<lparr>url = pngFile,
                        imageExtent = [JSNum (-180), JSNum (-90), JSNum 180, JSNum 90],
                        projection = js_or (JSStr ''EPSG:4326'') (JSStr ''EPSG:4326'')\<rparr>,
                      opacity = 9 / 10\<rparr> # drop 1 (layers page_map)\<rparr>)
       = [VectorTileLayer ''baseLayer'', ImageLayer lyr, VectorTileLayer ''labelsLayer'']"
    "imageExtent (source lyr) = [JSNum (-180), JSNum (-90), JSNum 180, JSNum 90]"
    by (auto simp: page_map_def)
  with h written t show ?thesis
    unfolding example_usage_def metadataFile_def [symmetric] by blast
qed

subsection \<open>The projection of the overlay\<close>

text \<open>
  Claim C4. The projection of the inserted layer is the \<open>crs\<close> member of the metadata when
  that member is present and truthy, and the string \<open>EPSG:4326\<close> when it is absent or
  falsy.
\<close>

theorem crs_fallback:
  assumes f: "fetch env metadataUrl = Inr resp"
    and j: "body_json resp = Inr metadata"
    and t: "loadGeoPNG_try env pngUrl metadataUrl v = Inr v'"
  shows "\<exists>kvs lyr.
      metadata = JSObj kvs \<and>
      layers v' = take 1 (layers v) @ ImageLayer lyr # drop 1 (layers v) \<and>
      projection (source lyr) =
        (case map_of kvs ''crs'' of
           None \<Rightarrow> JSStr ''EPSG:4326''
         | Some c \<Rightarrow> if js_truthy c then c else JSStr ''EPSG:4326'')"
proof -
  from loadGeoPNG_try_Inr [OF t] f j obtain extent c where
    e: "extent_of metadata = Inr extent" and c: "get_prop metadata ''crs'' = Inr c"
    and v': "v' = v\<lparr>layers := take 1 (layers v) @
                  ImageLayer \<lparr>source = \<lparr>url = pngUrl, imageExtent = extent,
                                    projection = js_or c (JSStr ''EPSG:4326'')\<rparr>,
                         opacity = 9 / 10\<rparr> # drop 1 (layers v)\<rparr>"
    by auto
  from extent_of_Inr [OF e] obtain kvs where kvs: "metadata = JSObj kvs" ..
  from c kvs have "js_or c (JSStr ''EPSG:4326'') =
        (case map_of kvs ''crs'' of
           None \<Rightarrow> JSStr ''EPSG:4326''
         | Some c \<Rightarrow> if js_truthy c then c else JSStr ''EPSG:4326'')"
    by (auto simp: js_or_def split: option.splits)
  with kvs v' show ?thesis
    by (intro exI [of _ kvs] exI [of _ "\<lparr>source = \<lparr>url = pngUrl, imageExtent = extent,
                                    projection = js_or c (JSStr ''EPSG:4326'')\<rparr>,
                         opacity = 9 / 10\<rparr>"]) simp
qed

lemma page_local:
  assumes "files metadataFile = Some (JSONFile j)" "extent_of (from_json j) = Inr extent"
    "get_prop (from_json j) ''crs'' = Inr c"
  shows "loadGeoPNG_try (local_browser files) pngFile metadataFile page_map =
           Inr \<lparr>layers = [VectorTileLayer ''baseLayer'',
                  ImageLayer \<lparr>source = \<lparr>url = pngFile, imageExtent = extent,
                                    projection = js_or c (JSStr ''EPSG:4326'')\<rparr>,
                         opacity = 9 / 10\<rparr>, VectorTileLayer ''labelsLayer''],
                console = []\<rparr>"
  using loadGeoPNG_local [of files metadataFile j extent c page_map pngFile] assms
  by (simp add: page_map_def)

theorem crs_fallback_witness:
  "(\<exists>v' lyr. loadGeoPNG_try (local_browser nocrs_files) pngFile metadataFile page_map = Inr v' \<and>
       layers v' = [VectorTileLayer ''baseLayer'', ImageLayer lyr, VectorTileLayer ''labelsLayer''] \<and>
       projection (source lyr) = JSStr ''EPSG:4326'') \<and>
   (\<exists>v' lyr. loadGeoPNG_try (local_browser mercator_files) pngFile metadataFile page_map = Inr v' \<and>
       layers v' = [VectorTileLayer ''baseLayer'', ImageLayer lyr, VectorTileLayer ''labelsLayer''] \<and>
       projection (source lyr) = JSStr ''EPSG:3857'')"
proof -
  let ?ext = "[JSNum 0, JSNum 0, JSNum 10, JSNum 5]"
  let ?b = "JSObj [(''top'', JSNum 5), (''right'', JSNum 10), (''bottom'', JSNum 0), (''left'', JSNum 0)]"
  let ?k1 = "[(''height'', JSNum 1), (''width'', JSNum 2), (''bounds'', ?b)]"
  let ?k2 = "(''crs'', JSStr ''EPSG:3857'') # ?k1"
  have w1: "nocrs_files metadataFile = Some (JSONFile (JObj
               [(''bounds'', JObj [(''left'', JFloat 0), (''bottom'', JFloat 0),
                                   (''right'', JFloat 10), (''top'', JFloat 5)]),
                (''width'', JInt 2), (''height'', JInt 1)]))"
    by (simp add: nocrs_files_def metadataFile_def)
  have w2: "mercator_files metadataFile = Some (JSONFile (JObj
               [(''bounds'', JObj [(''left'', JFloat 0), (''bottom'', JFloat 0),
                                   (''right'', JFloat 10), (''top'', JFloat 5)]),
                (''width'', JInt 2), (''height'', JInt 1), (''crs'', JStr ''EPSG:3857'')]))"
    by (simp add: mercator_files_def metadataFile_def)
  have t1: "loadGeoPNG_try (local_browser nocrs_files) pngFile metadataFile page_map =
           Inr \<lparr>layers = [VectorTileLayer ''baseLayer'',
                  ImageLayer \<lparr>source = \<lparr>url = pngFile, imageExtent = ?ext,
                                    projection = js_or JSUndefined (JSStr ''EPSG:4326'')\<rparr>,
                         opacity = 9 / 10\<rparr>, VectorTileLayer ''labelsLayer''],
                console = []\<rparr>"
    by (rule page_local [of nocrs_files, OF w1]) (simp_all add: extent_of_def)
  have f1: "fetch (local_browser nocrs_files) metadataFile = Inr \<lparr>body_json = Inr (JSObj ?k1)\<rparr>"
    by (simp add: local_browser_def serve_def nocrs_files_def metadataFile_def)
  have t2: "loadGeoPNG_try (local_browser mercator_files) pngFile metadataFile page_map =
           Inr \<lparr>layers = [VectorTileLayer ''baseLayer'',
                  ImageLayer \<lparr>source = \<lparr>url = pngFile, imageExtent = ?ext,
                                    projection = js_or (JSStr ''EPSG:3857'') (JSStr ''EPSG:4326'')\<rparr>,
                         opacity = 9 / 10\<rparr>, VectorTileLayer ''labelsLayer''],
                console = []\<rparr>"
    by (rule page_local [of mercator_files, OF w2]) (simp_all add: extent_of_def)
  have f2: "fetch (local_browser mercator_files) metadataFile = Inr \<lparr>body_json = Inr (JSObj ?k2)\<rparr>"
    by (simp add: local_browser_def serve_def mercator_files_def metadataFile_def)
  from crs_fallback [OF f1 _ t1] obtain lyr1 where
    "[VectorTileLayer ''baseLayer'',
                  ImageLayer \<lparr>source = \<lparr>url = pngFile, imageExtent = ?ext,
                                    projection = js_or JSUndefined (JSStr ''EPSG:4326'')\<rparr>,
                         opacity = 9 / 10\<rparr>, VectorTileLayer ''labelsLayer'']
       = [VectorTileLayer ''baseLayer'', ImageLayer lyr1, VectorTileLayer ''labelsLayer'']"
    "projection (source lyr1) = JSStr ''EPSG:4326''"
    by (auto simp: page_map_def)
  moreover
  from crs_fallback [OF f2 _ t2] obtain lyr2 where
    "[VectorTileLayer ''baseLayer'',
                  ImageLayer \<lparr>source = \<lparr>url = pngFile, imageExtent = ?ext,
                                    projection = js_or (JSStr ''EPSG:3857'') (JSStr ''EPSG:4326'')\<rparr>,
                         opacity = 9 / 10\<rparr>, VectorTileLayer ''labelsLayer'']
       = [VectorTileLayer ''baseLayer'', ImageLayer lyr2, VectorTileLayer ''labelsLayer'']"
    "projection (source lyr2) = JSStr ''EPSG:3857''"
    by (auto simp: page_map_def)
  ultimately show ?thesis
    using t1 t2 by simp
qed

subsection \<open>Failures inside \<open>loadGeoPNG\<close>\<close>

text \<open>
  Claim C5. When the fetch of the metadata fails, \<open>loadGeoPNG\<close> returns normally, the layers
  of the map are as before, and the console has one more entry, the message with the error.
\<close>

theorem fetch_failure_logged:
  assumes "fetch env metadataUrl = Inl e"
  shows "\<exists>v'. loadGeoPNG env pngUrl metadataUrl v = Inr v' \<and>
              layers v' = layers v \<and>
              console v' = console v @ [(''Error loading colormapped PNG:'', e)]"
  using assms by (simp add: loadGeoPNG_def loadGeoPNG_try_def)

theorem fetch_failure_logged_witness:
  "page offline_browser =
     Inr \<lparr>layers = [VectorTileLayer ''baseLayer'', VectorTileLayer ''labelsLayer''],
          console = [(''Error loading colormapped PNG:'', NetworkError)]\<rparr>"
proof -
  have "fetch offline_browser metadataFile = Inl NetworkError"
    by (simp add: offline_browser_def)
  from fetch_failure_logged [OF this, of pngFile page_map] obtain v' where
    "loadGeoPNG offline_browser pngFile metadataFile page_map = Inr v'"
    "layers v' = layers page_map"
    "console v' = console page_map @ [(''Error loading colormapped PNG:'', NetworkError)]"
    by blast
  then show ?thesis
    by (cases v') (simp add: page_def page_map_def)
qed

text \<open>
  Claim C10. \<open>loadGeoPNG\<close> always returns normally, and whenever something inside its
  \<open>try\<close> block throws, the layers of the map are as before and the error is logged. The
  block throws when the fetch rejects, when parsing the response fails, when building
  the extent fails (the metadata or its bounds are \<open>null\<close> or \<open>undefined\<close>), and when
  either constructor of the mapping library throws.
\<close>

theorem failure_leaves_layers:
  "(\<exists>v'. loadGeoPNG env pngUrl metadataUrl v = Inr v' \<and>
      (\<forall>e. loadGeoPNG_try env pngUrl metadataUrl v = Inl e \<longrightarrow>
           layers v' = layers v \<and>
           console v' = console v @ [(''Error loading colormapped PNG:'', e)])) \<and>
   (fetch env metadataUrl = Inl e \<longrightarrow> loadGeoPNG_try env pngUrl metadataUrl v = Inl e) \<and>
   (fetch env metadataUrl = Inr resp \<and> body_json resp = Inl e \<longrightarrow>
      loadGeoPNG_try env pngUrl metadataUrl v = Inl e) \<and>
   (fetch env metadataUrl = Inr resp \<and> body_json resp = Inr metadata \<and>
    extent_of metadata = Inl e \<longrightarrow>
      loadGeoPNG_try env pngUrl metadataUrl v = Inl e) \<and>
   (fetch env metadataUrl = Inr resp \<and> body_json resp = Inr metadata \<and>
    extent_of metadata = Inr extent \<and> get_prop metadata ''crs'' = Inr c \<and>
    ImageStatic_throws env
      \<lparr>url = pngUrl, imageExtent = extent, projection = js_or c (JSStr ''EPSG:4326'')\<rparr> = Some e \<longrightarrow>
      loadGeoPNG_try env pngUrl metadataUrl v = Inl e) \<and>
   (fetch env metadataUrl = Inr resp \<and> body_json resp = Inr metadata \<and>
    extent_of metadata = Inr extent \<and> get_prop metadata ''crs'' = Inr c \<and>
    ImageStatic_throws env
      \<lparr>url = pngUrl, imageExtent = extent, projection = js_or c (JSStr ''EPSG:4326'')\<rparr> = None \<and>
    Image_throws env
      \<lparr>source = \<lparr>url = pngUrl, imageExtent = extent,
                  projection = js_or c (JSStr ''EPSG:4326'')\<rparr>,
       opacity = 9 / 10\<rparr> = Some e \<longrightarrow>
      loadGeoPNG_try env pngUrl metadataUrl v = Inl e)"
proof (intro conjI impI)
  show "\<exists>v'. loadGeoPNG env pngUrl metadataUrl v = Inr v' \<and>
      (\<forall>e. loadGeoPNG_try env pngUrl metadataUrl v = Inl e \<longrightarrow>
           layers v' = layers v \<and>
           console v' = console v @ [(''Error loading colormapped PNG:'', e)])"
    by (cases "loadGeoPNG_try env pngUrl metadataUrl v") (simp_all add: loadGeoPNG_def)
qed (simp_all add: loadGeoPNG_try_def new_ImageStatic_def new_Image_def)

theorem failure_leaves_layers_witness:
  "(\<exists>v'. page (throwing_browser mercator_files) = Inr v' \<and>
         layers v' = [VectorTileLayer ''baseLayer'', VectorTileLayer ''labelsLayer''] \<and>
         console v' = [(''Error loading colormapped PNG:'', Error ''layer'')]) \<and>
   (\<exists>v'. page (local_browser demo_files) = Inr v' \<and>
         layers v' = [VectorTileLayer ''baseLayer'', VectorTileLayer ''labelsLayer''] \<and>
         console v' = [(''Error loading colormapped PNG:'', SyntaxError)])"
proof -
  let ?ext = "[JSNum 0, JSNum 0, JSNum 10, JSNum 5]"
  let ?b = "JSObj [(''top'', JSNum 5), (''right'', JSNum 10), (''bottom'', JSNum 0), (''left'', JSNum 0)]"
  let ?k = "[(''crs'', JSStr ''EPSG:3857''), (''height'', JSNum 1), (''width'', JSNum 2),
             (''bounds'', ?b)]"
  let ?env = "throwing_browser mercator_files"
  have f: "fetch ?env metadataFile = Inr \<lparr>body_json = Inr (JSObj ?k)\<rparr>"
    by (simp add: throwing_browser_def serve_def mercator_files_def metadataFile_def)
  have x: "extent_of (JSObj ?k) = Inr ?ext" by (simp add: extent_of_def)
  have c: "get_prop (JSObj ?k) ''crs'' = Inr (JSStr ''EPSG:3857'')" by simp
  note thm1 = failure_leaves_layers [where env = ?env and pngUrl = pngFile
      and metadataUrl = metadataFile and v = page_map and e = "Error ''layer''"
      and resp = "\<lparr>body_json = Inr (JSObj ?k)\<rparr>" and metadata = "JSObj ?k"
      and extent = ?ext and c = "JSStr ''EPSG:3857''"]
  from thm1 f x c have t1: "loadGeoPNG_try ?env pngFile metadataFile page_map = Inl (Error ''layer'')"
    by (simp add: throwing_browser_def)
  with thm1 have r1: "\<exists>v'. page ?env = Inr v' \<and>
         layers v' = [VectorTileLayer ''baseLayer'', VectorTileLayer ''labelsLayer''] \<and>
         console v' = [(''Error loading colormapped PNG:'', Error ''layer'')]"
    unfolding page_def by (auto simp: page_map_def)
  let ?env2 = "local_browser demo_files"
  have f2: "fetch ?env2 metadataFile = Inr \<lparr>body_json = Inl SyntaxError\<rparr>"
    by (simp add: local_browser_def serve_def demo_files_def metadataFile_def)
  note thm2 = failure_leaves_layers [where env = ?env2 and pngUrl = pngFile
      and metadataUrl = metadataFile and v = page_map and e = SyntaxError
      and resp = "\<lparr>body_json = Inl SyntaxError\<rparr>"]
  from thm2 f2 have t2: "loadGeoPNG_try ?env2 pngFile metadataFile page_map = Inl SyntaxError"
    by simp
  with thm2 have r2: "\<exists>v'. page ?env2 = Inr v' \<and>
         layers v' = [VectorTileLayer ''baseLayer'', VectorTileLayer ''labelsLayer''] \<and>
         console v' = [(''Error loading colormapped PNG:'', SyntaxError)]"
    unfolding page_def by (auto simp: page_map_def)
  from r1 r2 show ?thesis by (rule conjI)
qed

section \<open>Properties of the download step\<close>

lemma download_date_keeps:
  assumes "L \<subseteq> set (local_files st)"
  shows "L \<subseteq> set (local_files (download_date catalog ok d st))"
    and "set (fetched (download_date catalog ok d st)) \<inter> L = set (fetched st) \<inter> L"
    and "set (failed_dls (download_date catalog ok d st)) \<inter> L = set (failed_dls st) \<inter> L"
    and "set (dl_granules st) \<subseteq> set (dl_granules (download_date catalog ok d st))"
    and "catalog d = Some f \<Longrightarrow> f \<in> L \<Longrightarrow> f \<in> set (dl_granules (download_date catalog ok d st))"
  using assms by (auto simp: download_date_def split: option.splits)

lemma fold_download_keeps:
  assumes "L \<subseteq> set (local_files st)"
  shows "L \<subseteq> set (local_files (fold (download_date catalog ok) ds st)) \<and>
         set (fetched (fold (download_date catalog ok) ds st)) \<inter> L = set (fetched st) \<inter> L \<and>
         set (failed_dls (fold (download_date catalog ok) ds st)) \<inter> L = set (failed_dls st) \<inter> L \<and>
         set (dl_granules st) \<subseteq> set (dl_granules (fold (download_date catalog ok) ds st)) \<and>
         (\<forall>d \<in> set ds. \<forall>f. catalog d = Some f \<and> f \<in> L \<longrightarrow>
            f \<in> set (dl_granules (fold (download_date catalog ok) ds st)))"
  using assms
proof (induction ds arbitrary: st)
  case Nil
  then show ?case by simp
next
  case (Cons d ds)
  let ?st = "download_date catalog ok d st"
  note k = download_date_keeps [OF Cons.prems, where catalog = catalog and ok = ok and d = d]
  note ih = Cons.IH [OF k(1)]
  from ih k(2) have "set (fetched (fold (download_date catalog ok) (d # ds) st)) \<inter> L
                      = set (fetched st) \<inter> L" by simp
  moreover from ih k(3) have "set (failed_dls (fold (download_date catalog ok) (d # ds) st)) \<inter> L
                      = set (failed_dls st) \<inter> L" by simp
  moreover from ih k(4) have "set (dl_granules st)
        \<subseteq> set (dl_granules (fold (download_date catalog ok) (d # ds) st))" by auto
  moreover from ih have "L \<subseteq> set (local_files (fold (download_date catalog ok) (d # ds) st))"
    by simp
  moreover have "\<forall>d' \<in> set (d # ds). \<forall>f. catalog d' = Some f \<and> f \<in> L \<longrightarrow>
            f \<in> set (dl_granules (fold (download_date catalog ok) (d # ds) st))"
  proof (intro ballI allI impI)
    fix d' f assume d': "d' \<in> set (d # ds)" and f: "catalog d' = Some f \<and> f \<in> L"
    show "f \<in> set (dl_granules (fold (download_date catalog ok) (d # ds) st))"
    proof (cases "d' \<in> set ds")
      case True
      with ih f show ?thesis by auto
    next
      case False
      with d' have "d' = d" by simp
      with f k(5) have "f \<in> set (dl_granules ?st)" by blast
      with ih show ?thesis by auto
    qed
  qed
  ultimately show ?case by blast
qed

lemma fold_download_local:
  "set (dl_granules st) \<subseteq> set (local_files st) \<Longrightarrow>
   set (dl_granules (fold (download_date catalog ok) ds st))
     \<subseteq> set (local_files (fold (download_date catalog ok) ds st))"
proof (induction ds arbitrary: st)
  case Nil
  then show ?case by simp
next
  case (Cons d ds)
  have "set (dl_granules (download_date catalog ok d st))
          \<subseteq> set (local_files (download_date catalog ok d st))"
    using Cons.prems by (auto simp: download_date_def split: option.splits)
  from Cons.IH [OF this] show ?case by simp
qed

lemma fold_download_origin:
  "f \<in> set (dl_granules (fold (download_date catalog ok) ds st)) \<Longrightarrow>
   f \<in> set (dl_granules st) \<or> (\<exists>d \<in> set ds. catalog d = Some f)"
proof (induction ds arbitrary: st)
  case Nil
  then show ?case by simp
next
  case (Cons d ds)
  from Cons.IH [of "download_date catalog ok d st"] Cons.prems
  have "f \<in> set (dl_granules (download_date catalog ok d st)) \<or> (\<exists>d \<in> set ds. catalog d = Some f)"
    by simp
  then show ?case
    by (auto simp: download_date_def split: option.splits if_splits)
qed

text \<open>
  Claim C6. After a first run over a date range, a second run over the same range, started
  on the files the first run left in the output directory (whatever the network does this
  time), fetches none of the files already there, lists none of them as failed, and lists
  every granule of the range that is there, in particular every file the first run
  reported as downloaded, in its collection of downloaded files.
\<close>

theorem redownload_idempotent:
  assumes r1_def: "r1 = download_timerange catalog first_ok s e outpath_files"
    and r2_def: "r2 = download_timerange catalog second_ok s e (local_files r1)"
  shows "set (fetched r2) \<inter> set (local_files r1) = {} \<and>
         set (failed_dls r2) \<inter> set (local_files r1) = {} \<and>
         (\<forall>d f. s \<le> d \<and> d \<le> e \<and> catalog d = Some f \<and> f \<in> set (local_files r1) \<longrightarrow>
                f \<in> set (dl_granules r2)) \<and>
         set (dl_granules r1) \<subseteq> set (local_files r1) \<and>
         set (dl_granules r1) \<subseteq> set (dl_granules r2)"
proof -
  let ?st2 = "\<lparr>dl_granules = [], dates_notfound = [], failed_dls = [], fetched = [],
               local_files = local_files r1\<rparr>"
  have "set (local_files r1) \<subseteq> set (local_files ?st2)" by simp
  from fold_download_keeps [OF this, where catalog = catalog and ok = second_ok
      and ds = "[s ..< Suc e]"]
  have a: "set (fetched r2) \<inter> set (local_files r1) = {}"
    and b: "set (failed_dls r2) \<inter> set (local_files r1) = {}"
    and c: "\<forall>d \<in> set [s ..< Suc e]. \<forall>f. catalog d = Some f \<and> f \<in> set (local_files r1) \<longrightarrow>
              f \<in> set (dl_granules r2)"
    unfolding r2_def download_timerange_def by (simp_all del: upt_Suc)
  from c have c': "\<forall>d f. s \<le> d \<and> d \<le> e \<and> catalog d = Some f \<and> f \<in> set (local_files r1) \<longrightarrow>
                f \<in> set (dl_granules r2)"
    by auto
  have d: "set (dl_granules r1) \<subseteq> set (local_files r1)"
    unfolding r1_def download_timerange_def by (rule fold_download_local) simp
  have "set (dl_granules r1) \<subseteq> set (dl_granules r2)"
  proof
    fix f assume f: "f \<in> set (dl_granules r1)"
    then have "\<exists>d \<in> set [s ..< Suc e]. catalog d = Some f"
      unfolding r1_def download_timerange_def
      using fold_download_origin [of f catalog first_ok "[s ..< Suc e]"
          "\<lparr>dl_granules = [], dates_notfound = [], failed_dls = [], fetched = [],
            local_files = outpath_files\<rparr>"]
      by (simp del: upt_Suc)
    with f d c show "f \<in> set (dl_granules r2)" by blast
  qed
  with a b c' d show ?thesis by blast
qed

lemma demo_first_run:
  "download_timerange demo_catalog (\<lambda>f. f = ''oco3_LtSIF_200401.nc4'') 1 3 [] =
     \<lparr>dl_granules = [''oco3_LtSIF_200401.nc4''], dates_notfound = [2],
      failed_dls = [''oco3_LtSIF_200403.nc4''], fetched = [''oco3_LtSIF_200401.nc4''],
      local_files = [''oco3_LtSIF_200401.nc4'']\<rparr>"
  by (simp add: download_timerange_def download_date_def demo_catalog_def upt_rec)

theorem redownload_idempotent_witness:
  "local_files (download_timerange demo_catalog (\<lambda>f. f = ''oco3_LtSIF_200401.nc4'') 1 3 [])
     = [''oco3_LtSIF_200401.nc4''] \<and>
   ''oco3_LtSIF_200401.nc4''
     \<in> set (dl_granules (download_timerange demo_catalog (\<lambda>f. False) 1 3 [''oco3_LtSIF_200401.nc4''])) \<and>
   ''oco3_LtSIF_200401.nc4''
     \<notin> set (fetched (download_timerange demo_catalog (\<lambda>f. False) 1 3 [''oco3_LtSIF_200401.nc4''])) \<and>
   ''oco3_LtSIF_200401.nc4''
     \<notin> set (failed_dls (download_timerange demo_catalog (\<lambda>f. False) 1 3 [''oco3_LtSIF_200401.nc4'']))"
  using redownload_idempotent [where catalog = demo_catalog and s = 1 and e = 3
      and first_ok = "\<lambda>f. f = ''oco3_LtSIF_200401.nc4''" and second_ok = "\<lambda>f. False" and outpath_files = "[]",
      OF refl refl]
  unfolding demo_first_run by (simp add: demo_catalog_def)

end
